theory Spec2Isabelle
  imports Main "HOL-Library.Word"
begin

unbundle bit_operations_syntax

section \<open>Buffers\<close>

text \<open>
  A Node.js \<open>Buffer\<close> is a sequence of bytes. The unsigned integers that the codec
  reads from a buffer, and its offsets and lengths, are \<open>nat\<close>; the numbers held by
  message data, which a caller may choose freely, are \<open>int\<close>. Indices returned by
  \<open>indexOf\<close> and \<open>lastIndexOf\<close> are \<open>int\<close>, because the source relies on the value
  \<open>-1\<close> for "not found".
\<close>

type_synonym byte = "8 word"
type_synonym buffer = "byte list"

text \<open>\<open>buffer.indexOf(v)\<close>: the first index holding \<open>v\<close>, or \<open>-1\<close>.\<close>

primrec indexOf :: "buffer \<Rightarrow> byte \<Rightarrow> int" where
  "indexOf [] v = - 1"
| "indexOf (x # xs) v =
     (if x = v then 0
      else (let r = indexOf xs v in if r = - 1 then - 1 else r + 1))"

text \<open>\<open>buffer.lastIndexOf(v)\<close>: the last index holding \<open>v\<close>, or \<open>-1\<close>.\<close>

primrec lastIndexOf :: "buffer \<Rightarrow> byte \<Rightarrow> int" where
  "lastIndexOf [] v = - 1"
| "lastIndexOf (x # xs) v =
     (let r = lastIndexOf xs v in
      if r \<noteq> - 1 then r + 1 else if x = v then 0 else - 1)"

text \<open>
  \<open>buffer.slice(start, end)\<close>: negative arguments count from the end, both are
  clamped to the buffer, and an end before the start gives the empty buffer.
\<close>

definition clampIndex :: "nat \<Rightarrow> int \<Rightarrow> nat" where
  "clampIndex len i =
     (if i < 0 then nat (max 0 (int len + i)) else min len (nat i))"

definition sliceBuffer :: "buffer \<Rightarrow> int \<Rightarrow> int \<Rightarrow> buffer" where
  "sliceBuffer buf start end =
     (let s = clampIndex (length buf) start; e = clampIndex (length buf) end
      in take (e - s) (drop s buf))"

text \<open>
  \<open>source.copy(target, targetStart)\<close>: overwrites the target from \<open>targetStart\<close>
  with as many bytes of the source as fit; the target keeps its length.
\<close>

definition copy :: "buffer \<Rightarrow> buffer \<Rightarrow> nat \<Rightarrow> buffer" where
  "copy source target targetStart =
     (let n = min (length source) (length target - targetStart)
      in take targetStart target @ take n source @ drop (targetStart + n) target)"

text \<open>\<open>Buffer.alloc(n)\<close>: \<open>n\<close> zero bytes.\<close>

definition alloc :: "nat \<Rightarrow> buffer" where
  "alloc n = replicate n 0"

section \<open>Checksum and framing (checksum module)\<close>

text \<open>
  \<open>calculateChecksum(buffer, start, end)\<close>: the XOR of the bytes at the indices
  \<open>start \<le> i < end\<close>. An index outside the buffer reads \<open>undefined\<close>, which XOR
  treats as 0.
\<close>

fun checksumLoop :: "buffer \<Rightarrow> nat \<Rightarrow> nat \<Rightarrow> byte \<Rightarrow> byte" where
  "checksumLoop buffer i 0 checksum = checksum"
| "checksumLoop buffer i (Suc k) checksum =
     checksumLoop buffer (Suc i) k
       (checksum XOR (if i < length buffer then buffer ! i else 0))"

definition calculateChecksumRange :: "buffer \<Rightarrow> nat \<Rightarrow> nat \<Rightarrow> byte" where
  "calculateChecksumRange buffer start end = checksumLoop buffer start (end - start) 0"

text \<open>The default arguments: \<open>start = 0\<close>, \<open>end = buffer.length\<close>.\<close>

definition calculateChecksum :: "buffer \<Rightarrow> byte" where
  "calculateChecksum buffer = calculateChecksumRange buffer 0 (length buffer)"

text \<open>
  \<open>validateMessageChecksum\<close>. \<open>messageBuffer[endFlag - 1]\<close> is always inside the
  buffer here: the two flags differ, so \<open>endFlag \<ge> 1\<close>.
\<close>

definition validateMessageChecksum :: "buffer \<Rightarrow> bool" where
  "validateMessageChecksum messageBuffer =
     (if length messageBuffer < 3 then False
      else
        let startFlag = indexOf messageBuffer 0x7E;
            endFlag = lastIndexOf messageBuffer 0x7E
        in if startFlag = - 1 \<or> endFlag = - 1 \<or> startFlag = endFlag then False
           else
             let messageData = sliceBuffer messageBuffer (startFlag + 1) (endFlag - 1);
                 receivedChecksum = messageBuffer ! nat (endFlag - 1);
                 calculatedChecksum = calculateChecksum messageData
             in calculatedChecksum = receivedChecksum)"

text \<open>
  \<open>wrapMessage\<close>: allocates \<open>length + 3\<close> bytes, writes the start flag, copies the
  data to offset 1, then writes the checksum and the end flag.
\<close>

definition wrapMessage :: "buffer \<Rightarrow> buffer" where
  "wrapMessage messageData =
     (let checksum = calculateChecksum messageData;
          w0 = alloc (length messageData + 3);
          w1 = w0[0 := 0x7E];
          w2 = copy messageData w1 1;
          w3 = w2[length w2 - 2 := checksum];
          w4 = w3[length w3 - 1 := 0x7E]
      in w4)"

text \<open>
  The object \<open>{ messageData, isValid, error }\<close> returned by \<open>unwrapMessage\<close>;
  \<open>messageData\<close> is \<open>null\<close> and \<open>error\<close> is set only on the format error.
\<close>

record Unwrapped =
  messageData :: "buffer option"
  isValid :: bool
  error :: "string option"

definition unwrapMessage :: "buffer \<Rightarrow> Unwrapped" where
  "unwrapMessage wrappedMessage =
     (let startFlag = indexOf wrappedMessage 0x7E;
          endFlag = lastIndexOf wrappedMessage 0x7E
      in if startFlag = - 1 \<or> endFlag = - 1 \<or> startFlag = endFlag
         then \<lparr>messageData = None, isValid = False, error = Some ''Invalid message format''\<rparr>
         else \<lparr>messageData = Some (sliceBuffer wrappedMessage (startFlag + 1) (endFlag - 1)),
               isValid = validateMessageChecksum wrappedMessage,
               error = None\<rparr>)"

section \<open>JavaScript strings and errors\<close>

text \<open>
  A thrown JavaScript exception, with its message. \<open>RangeError\<close> is what Node.js
  throws when a buffer read reaches outside the buffer; \<open>TypeError\<close> is a property
  access on \<open>null\<close>; \<open>Error\<close> is what the codec itself throws.
\<close>

datatype exn = Error string | RangeError string | TypeError string

fun message :: "exn \<Rightarrow> string" where
  "message (Error m) = m"
| "message (RangeError m) = m"
| "message (TypeError m) = m"

text \<open>Sequencing of computations that may throw.\<close>

definition andThen :: "exn + 'a \<Rightarrow> ('a \<Rightarrow> exn + 'b) \<Rightarrow> exn + 'b" where
  "andThen m f = (case m of Inl e \<Rightarrow> Inl e | Inr x \<Rightarrow> f x)"

text \<open>
  \<open>n.toString()\<close> and \<open>n.toString(16)\<close> for a non-negative integer: its digits in
  base 10, or in base 16 with lower-case letters. The source uses no other radix; the
  case of a radix below 2 is there only to make the function total.
\<close>

definition digitChar :: "nat \<Rightarrow> char" where
  "digitChar d = ''0123456789abcdef'' ! d"

function toStringRadix :: "nat \<Rightarrow> nat \<Rightarrow> string" where
  "toStringRadix radix n =
     (if radix < 2 \<or> n < radix then [digitChar n]
      else toStringRadix radix (n div radix) @ [digitChar (n mod radix)])"
  by pat_completeness auto
termination
  by (relation "measure (\<lambda>(radix, n). n)") auto

definition toString :: "nat \<Rightarrow> string" where
  "toString n = toStringRadix 10 n"

text \<open>\<open>str.padStart(targetLength, c)\<close> with a one-character pad string.\<close>

definition padStart :: "string \<Rightarrow> nat \<Rightarrow> char \<Rightarrow> string" where
  "padStart str targetLength c = replicate (targetLength - length str) c @ str"

text \<open>
  \<open>parseInt(str[i], 10)\<close> on one character: the digit's value, or \<open>NaN\<close>
  (\<open>None\<close>) for any other character and for an index outside the string.
  The bitwise operators read \<open>NaN\<close> as 0.
\<close>

definition parseIntAt :: "string \<Rightarrow> nat \<Rightarrow> nat option" where
  "parseIntAt str i =
     (if i < length str \<and> str ! i \<in> set ''0123456789''
      then Some (of_char (str ! i) - 48) else None)"

definition toInt32 :: "nat option \<Rightarrow> nat" where
  "toInt32 v = (case v of None \<Rightarrow> 0 | Some n \<Rightarrow> n)"

section \<open>BufferParser\<close>

text \<open>
  Node's own buffer reads: they throw a \<open>RangeError\<close> when the bytes to read are not
  all inside the buffer.
\<close>

definition outOfRange :: exn where
  "outOfRange = RangeError ''The value of offset is out of range''"

definition buffer_readUInt8 :: "buffer \<Rightarrow> nat \<Rightarrow> exn + nat" where
  "buffer_readUInt8 b i =
     (if i + 1 \<le> length b then Inr (unat (b ! i)) else Inl outOfRange)"

definition buffer_readUInt16BE :: "buffer \<Rightarrow> nat \<Rightarrow> exn + nat" where
  "buffer_readUInt16BE b i =
     (if i + 2 \<le> length b then Inr (unat (b ! i) * 2 ^ 8 + unat (b ! (i + 1)))
      else Inl outOfRange)"

definition buffer_readUInt32BE :: "buffer \<Rightarrow> nat \<Rightarrow> exn + nat" where
  "buffer_readUInt32BE b i =
     (if i + 4 \<le> length b
      then Inr (unat (b ! i) * 2 ^ 24 + unat (b ! (i + 1)) * 2 ^ 16 +
                unat (b ! (i + 2)) * 2 ^ 8 + unat (b ! (i + 3)))
      else Inl outOfRange)"

text \<open>
  \<open>buffer.toString('ascii', start, end)\<close>: the bytes of the slice as characters, the
  high bit of each byte cleared.
\<close>

definition asciiChar :: "byte \<Rightarrow> char" where
  "asciiChar b = char_of (unat (b AND 0x7F))"

definition toStringAscii :: "buffer \<Rightarrow> nat \<Rightarrow> nat \<Rightarrow> string" where
  "toStringAscii b start end = map asciiChar (sliceBuffer b (int start) (int end))"

text \<open>The parser: a buffer and a read position.\<close>

record BufferParser =
  buffer :: buffer
  offset :: nat

definition newBufferParser :: "buffer \<Rightarrow> BufferParser" where
  "newBufferParser b = \<lparr>buffer = b, offset = 0\<rparr>"

definition overflowMessage :: "string \<Rightarrow> BufferParser \<Rightarrow> string" where
  "overflowMessage what p =
     ''Buffer overflow: trying to read '' @ what @ ''at offset '' @ toString (offset p) @
     '', buffer length '' @ toString (length (buffer p))"

definition readUInt8 :: "BufferParser \<Rightarrow> exn + nat \<times> BufferParser" where
  "readUInt8 p =
     (if offset p \<ge> length (buffer p) then Inl (Error (overflowMessage '''' p))
      else andThen (buffer_readUInt8 (buffer p) (offset p))
             (\<lambda>v. Inr (v, p\<lparr>offset := offset p + 1\<rparr>)))"

definition readUInt16BE :: "BufferParser \<Rightarrow> exn + nat \<times> BufferParser" where
  "readUInt16BE p =
     (if offset p + 1 \<ge> length (buffer p) then Inl (Error (overflowMessage '''' p))
      else andThen (buffer_readUInt16BE (buffer p) (offset p))
             (\<lambda>v. Inr (v, p\<lparr>offset := offset p + 2\<rparr>)))"

definition readUInt32BE :: "BufferParser \<Rightarrow> exn + nat \<times> BufferParser" where
  "readUInt32BE p =
     (if offset p + 3 \<ge> length (buffer p) then Inl (Error (overflowMessage '''' p))
      else andThen (buffer_readUInt32BE (buffer p) (offset p))
             (\<lambda>v. Inr (v, p\<lparr>offset := offset p + 4\<rparr>)))"

text \<open>
  The guard of the three sized reads is \<open>offset + length - 1 >= buffer.length\<close> on
  JavaScript numbers, where \<open>0 + 0 - 1\<close> is \<open>-1\<close>: it is computed on \<open>int\<close>.
\<close>

definition overflows :: "BufferParser \<Rightarrow> nat \<Rightarrow> bool" where
  "overflows p len = (int (offset p) + int len - 1 \<ge> int (length (buffer p)))"

text \<open>The loop of \<open>readBCD\<close>: \<open>k\<close> bytes are left to read, \<open>i\<close> is the loop index.\<close>

fun readBCDLoop :: "buffer \<Rightarrow> nat \<Rightarrow> nat \<Rightarrow> nat \<Rightarrow> string \<Rightarrow> exn + string" where
  "readBCDLoop b off i 0 result = Inr result"
| "readBCDLoop b off i (Suc k) result =
     andThen (buffer_readUInt8 b (off + i))
       (\<lambda>byte. let high = drop_bit 4 byte AND 0x0F;
                    low = byte AND 0x0F
                in readBCDLoop b off (Suc i) k (result @ toString high @ toString low))"

definition readBCD :: "nat \<Rightarrow> BufferParser \<Rightarrow> exn + string \<times> BufferParser" where
  "readBCD len p =
     (if overflows p len then Inl (Error (overflowMessage ''BCD '' p))
      else andThen (readBCDLoop (buffer p) (offset p) 0 len '''')
             (\<lambda>result. Inr (result, p\<lparr>offset := offset p + len\<rparr>)))"

text \<open>\<open>readASCII\<close>: the NUL characters are removed from the string read.\<close>

definition readASCII :: "nat \<Rightarrow> BufferParser \<Rightarrow> exn + string \<times> BufferParser" where
  "readASCII len p =
     (if overflows p len then Inl (Error (overflowMessage ''ASCII '' p))
      else
        let v = toStringAscii (buffer p) (offset p) (offset p + len)
        in Inr (filter (\<lambda>c. c \<noteq> CHR 0x00) v, p\<lparr>offset := offset p + len\<rparr>))"

definition readBytes :: "nat \<Rightarrow> BufferParser \<Rightarrow> exn + buffer \<times> BufferParser" where
  "readBytes len p =
     (if overflows p len then Inl (Error (overflowMessage ''bytes '' p))
      else
        let v = sliceBuffer (buffer p) (int (offset p)) (int (offset p + len))
        in Inr (v, p\<lparr>offset := offset p + len\<rparr>))"

definition remaining :: "BufferParser \<Rightarrow> int" where
  "remaining p = int (length (buffer p)) - int (offset p)"

section \<open>Message parser\<close>

datatype ProtocolVersion = JT808_2011 | JT808_2013 | JT808_2019

text \<open>\<open>detectProtocolVersion(messageId, reserved, messageLength)\<close>.\<close>

definition detectProtocolVersion :: "nat \<Rightarrow> nat \<Rightarrow> nat \<Rightarrow> ProtocolVersion" where
  "detectProtocolVersion messageId reserved messageLength =
     (if reserved \<noteq> 0 then JT808_2019
      else
        let jt808_2019_messages = [0x0001, 0x8001, 0x0102, 0x8103, 0x8104, 0x8106, 0x8107]
        in if messageId \<in> set jt808_2019_messages then JT808_2019
           else JT808_2013)"

text \<open>
  \<open>stringToBCD(str, length)\<close>, the same body in \<open>MessageParser\<close> and in
  \<open>MessageSerializer\<close>. The loop writes byte \<open>i\<close> of a zeroed buffer from the
  characters \<open>2 i\<close> and \<open>2 i + 1\<close> of the padded string; a buffer element keeps the low
  8 bits of the number written.
\<close>

fun stringToBCDLoop :: "string \<Rightarrow> nat \<Rightarrow> nat \<Rightarrow> buffer \<Rightarrow> buffer" where
  "stringToBCDLoop paddedStr i 0 buf = buf"
| "stringToBCDLoop paddedStr i (Suc k) buf =
     (let high = parseIntAt paddedStr (i * 2);
          low = parseIntAt paddedStr (i * 2 + 1)
      in stringToBCDLoop paddedStr (Suc i) k
           (buf[i := of_nat (push_bit 4 (toInt32 high) OR toInt32 low)]))"

definition stringToBCD :: "string \<Rightarrow> nat \<Rightarrow> buffer" where
  "stringToBCD str len =
     (let buf = alloc len;
          paddedStr = padStart str (len * 2) CHR ''0''
      in stringToBCDLoop paddedStr 0 len buf)"

definition MessageParser_stringToBCD :: "string \<Rightarrow> nat \<Rightarrow> buffer" where
  "MessageParser_stringToBCD str len =
     (let buf = alloc len;
          paddedStr = padStart str (len * 2) CHR ''0''
      in stringToBCDLoop paddedStr 0 len buf)"

text \<open>The header; \<open>messagePackage\<close> is \<open>null\<close> unless the message is fragmented.\<close>

record MessagePackage =
  total :: nat
  current :: nat

record MessageHeader =
  messageId :: nat
  messageProperties :: nat
  protocolVersion :: "ProtocolVersion option"
  deviceId :: string
  messageSequence :: nat
  messagePackage :: "MessagePackage option"
  encryptionType :: nat
  messageLength :: nat

definition parseHeader :: "buffer \<Rightarrow> exn + MessageHeader" where
  "parseHeader data =
     (let parser = newBufferParser data in
      andThen (readUInt16BE parser) (\<lambda>(mId, parser).
      andThen (readUInt16BE parser) (\<lambda>(mProperties, parser).
        let mLength = mProperties AND 0x03FF;
            encryption = drop_bit 10 mProperties AND 0x07;
            isFragmented = drop_bit 13 mProperties AND 0x01;
            reserved = drop_bit 14 mProperties AND 0x03;
            version = detectProtocolVersion mId reserved (length data)
        in
      andThen (if version = JT808_2019 then readBCD 6 parser else readBCD 6 parser)
        (\<lambda>(dId, parser).
      andThen (readUInt16BE parser) (\<lambda>(mSequence, parser).
      andThen
        (if isFragmented \<noteq> 0
         then andThen (readUInt16BE parser) (\<lambda>(t, parser).
              andThen (readUInt16BE parser) (\<lambda>(c, parser).
                Inr (Some \<lparr>total = t, current = c\<rparr>, parser)))
         else Inr (None, parser))
        (\<lambda>(mPackage, parser).
           Inr \<lparr>messageId = mId, messageProperties = mProperties,
                protocolVersion = Some version, deviceId = dId,
                messageSequence = mSequence, messagePackage = mPackage,
                encryptionType = encryption, messageLength = mLength\<rparr>))))))"

definition getHeaderLength :: "MessageHeader \<Rightarrow> nat" where
  "getHeaderLength h = 12 + (if messagePackage h \<noteq> None then 4 else 0)"

text \<open>
  The object returned by \<open>parseMessage\<close>: \<open>{ success: false, error, rawData }\<close> or
  \<open>{ success: true, header, body, rawData, protocolVersion }\<close>.
\<close>

datatype ParsedMessage =
    Failure (failureError: string) (rawData: buffer)
  | Success (header: MessageHeader) (body: buffer) (rawData: buffer)
      (version: "ProtocolVersion option")

text \<open>
  \<open>parseMessage\<close>. The logging calls only print, except that \<open>logRawMessage\<close>,
  called before the \<open>try\<close> block, calls \<open>join\<close> on the result of a regular
  expression match that is \<open>null\<close> for the empty buffer: that \<open>TypeError\<close> escapes.
  Inside the \<open>try\<close> block every exception becomes a failure result carrying its message;
  \<open>parseHeader(null)\<close> cannot happen, since \<open>isValid\<close> comes with a body.
\<close>

definition parseMessage :: "buffer \<Rightarrow> exn + ParsedMessage" where
  "parseMessage rawBuffer =
     (if rawBuffer = [] then Inl (TypeError ''Cannot read properties of null'')
      else
        let u = unwrapMessage rawBuffer in
        if \<not> isValid u
        then Inr (Failure (case error u of
                             Some e \<Rightarrow> if e \<noteq> [] then e else ''Invalid checksum''
                           | None \<Rightarrow> ''Invalid checksum'') rawBuffer)
        else
          (case messageData u of
             None \<Rightarrow> Inr (Failure ''Cannot read properties of null'' rawBuffer)
           | Some data \<Rightarrow>
               (case parseHeader data of
                  Inl e \<Rightarrow> Inr (Failure (message e) rawBuffer)
                | Inr h \<Rightarrow>
                    let bodyLength = int (length data) - int (getHeaderLength h);
                        messageBody = sliceBuffer data (int (getHeaderLength h))
                                        (int (getHeaderLength h) + bodyLength)
                    in Inr (Success h messageBody rawBuffer (protocolVersion h)))))"

section \<open>Message structures (schema registry)\<close>

text \<open>
  The values that message data holds: JavaScript numbers (integers here), strings,
  buffers, location objects and arrays of location or parameter objects. A location
  object of the model has all its eight properties, a parameter object its three
  (\<open>id\<close>, \<open>length\<close>, \<open>value\<close>).
\<close>

record Location =
  alarmFlag :: int
  statusFlag :: int
  latitude :: int
  longitude :: int
  altitude :: int
  speed :: int
  direction :: int
  timestamp :: string

datatype Parameter = Parameter (parameterId: int) (parameterLength: int) (parameterValue: buffer)

datatype jsitem = LocationItem Location | ParameterItem Parameter

datatype jsvalue =
    JNumber int
  | JString string
  | JBuffer buffer
  | JLocation Location
  | JArray "jsitem list"

type_synonym jsobject = "string \<rightharpoonup> jsvalue"

text \<open>
  A field of a message structure. \<open>fieldLength\<close> is the property \<open>length\<close>
  (\<open>None\<close> when the schema does not give it); \<open>variable\<close>, \<open>countField\<close> and
  \<open>optional\<close> are read for their truth value only, so an absent property is \<open>False\<close>.
  The \<open>description\<close> strings are documentation and are left out. No schema of the
  registry declares \<open>min\<close>, \<open>max\<close>, \<open>enum\<close> or \<open>pattern\<close>, and the record has no
  such property.
\<close>

record FieldSchema =
  name :: string
  type :: string
  fieldLength :: "nat option"
  variable :: bool
  itemType :: "string option"
  countField :: bool
  optional :: bool

datatype MessageStructure =
  MessageStructure (structureName: string) (structureDirection: string)
    (fields: "FieldSchema list")

text \<open>A schema entry that gives a name and a type and no other property.\<close>

definition field :: "string \<Rightarrow> string \<Rightarrow> FieldSchema" where
  "field n t = \<lparr>name = n, type = t, fieldLength = None, variable = False,
                 itemType = None, countField = False, optional = False\<rparr>"

text \<open>The constants of \<open>MESSAGE_IDS\<close> that have a message structure.\<close>

definition TERMINAL_REGISTRATION :: nat where "TERMINAL_REGISTRATION = 0x0100"
definition TERMINAL_AUTH :: nat where "TERMINAL_AUTH = 0x0102"
definition TERMINAL_HEARTBEAT :: nat where "TERMINAL_HEARTBEAT = 0x0002"
definition LOCATION_REPORT :: nat where "LOCATION_REPORT = 0x0200"
definition LOCATION_BATCH_REPORT :: nat where "LOCATION_BATCH_REPORT = 0x0704"
definition MULTIMEDIA_EVENT_UPLOAD :: nat where "MULTIMEDIA_EVENT_UPLOAD = 0x0800"
definition PLATFORM_GENERAL_RESPONSE :: nat where "PLATFORM_GENERAL_RESPONSE = 0x8001"
definition TERMINAL_REGISTRATION_RESPONSE :: nat where "TERMINAL_REGISTRATION_RESPONSE = 0x8100"
definition SET_TERMINAL_PARAMETERS :: nat where "SET_TERMINAL_PARAMETERS = 0x8103"
definition TERMINAL_CONTROL :: nat where "TERMINAL_CONTROL = 0x8105"
definition CAMERA_SHOT_COMMAND :: nat where "CAMERA_SHOT_COMMAND = 0x8801"

text \<open>The table \<open>MESSAGE_STRUCTURES\<close>, entry by entry in the order of the source.\<close>

definition structureList :: "(nat \<times> MessageStructure) list" where
  "structureList =
    [(TERMINAL_REGISTRATION, MessageStructure ''Terminal Registration'' ''up''
        [field ''provinceId'' ''uint16'',
         field ''cityId'' ''uint16'',
         (field ''manufacturerId'' ''string'')\<lparr>fieldLength := Some 5\<rparr>,
         (field ''deviceModel'' ''string'')\<lparr>fieldLength := Some 8\<rparr>,
         (field ''deviceId'' ''string'')\<lparr>fieldLength := Some 7\<rparr>,
         field ''plateColor'' ''uint8'',
         (field ''plateNumber'' ''string'')\<lparr>variable := True\<rparr>]),
     (TERMINAL_REGISTRATION_RESPONSE, MessageStructure ''Terminal Registration Response'' ''down''
        [field ''sequenceNumber'' ''uint16'',
         field ''result'' ''uint8'',
         (field ''authCode'' ''string'')\<lparr>variable := True\<rparr>]),
     (TERMINAL_AUTH, MessageStructure ''Terminal Authentication'' ''up''
        [(field ''authCode'' ''string'')\<lparr>variable := True\<rparr>]),
     (TERMINAL_HEARTBEAT, MessageStructure ''Terminal Heartbeat'' ''up'' []),
     (PLATFORM_GENERAL_RESPONSE, MessageStructure ''Platform General Response'' ''down''
        [field ''sequenceNumber'' ''uint16'',
         field ''messageId'' ''uint16'',
         field ''result'' ''uint8'']),
     (LOCATION_REPORT, MessageStructure ''Location Information Report'' ''up''
        [field ''alarmFlag'' ''uint32'',
         field ''statusFlag'' ''uint32'',
         field ''latitude'' ''uint32'',
         field ''longitude'' ''uint32'',
         field ''altitude'' ''uint16'',
         field ''speed'' ''uint16'',
         field ''direction'' ''uint16'',
         (field ''timestamp'' ''bcd'')\<lparr>fieldLength := Some 6\<rparr>,
         (field ''additionalInfo'' ''bytes'')\<lparr>variable := True\<rparr>]),
     (LOCATION_BATCH_REPORT, MessageStructure ''Location Batch Report'' ''up''
        [field ''dataType'' ''uint8'',
         field ''itemCount'' ''uint16'',
         (field ''locationItems'' ''array'')\<lparr>itemType := Some ''location''\<rparr>]),
     (MULTIMEDIA_EVENT_UPLOAD, MessageStructure ''Multimedia Event Upload'' ''up''
        [field ''multimediaId'' ''uint32'',
         field ''multimediaType'' ''uint8'',
         field ''multimediaFormat'' ''uint8'',
         field ''eventCode'' ''uint8'',
         field ''channelId'' ''uint8'',
         field ''locationInfo'' ''location'',
         (field ''multimediaData'' ''bytes'')\<lparr>variable := True\<rparr>]),
     (SET_TERMINAL_PARAMETERS, MessageStructure ''Set Terminal Parameters'' ''down''
        [field ''parameterCount'' ''uint8'',
         (field ''parameters'' ''array'')\<lparr>itemType := Some ''parameter''\<rparr>]),
     (TERMINAL_CONTROL, MessageStructure ''Terminal Control'' ''down''
        [field ''commandFlag'' ''uint8'',
         (field ''commandParameter'' ''string'')\<lparr>variable := True\<rparr>]),
     (CAMERA_SHOT_COMMAND, MessageStructure ''Camera Shot Command'' ''down''
        [field ''channelId'' ''uint8'',
         field ''shotCommand'' ''uint16'',
         field ''shotInterval'' ''uint16'',
         field ''shotCount'' ''uint16'',
         field ''saveFlag'' ''uint8'',
         field ''resolution'' ''uint8'',
         field ''quality'' ''uint8'',
         field ''brightness'' ''uint8'',
         field ''contrast'' ''uint8'',
         field ''saturation'' ''uint8'',
         field ''chroma'' ''uint8''])]"

definition MESSAGE_STRUCTURES :: "nat \<rightharpoonup> MessageStructure" where
  "MESSAGE_STRUCTURES = map_of structureList"

definition unknownMessageId :: "nat \<Rightarrow> string" where
  "unknownMessageId messageId' =
     ''Unknown message ID: 0x'' @ padStart (toStringRadix 16 messageId') 4 CHR ''0''"

section \<open>Deserialization\<close>

definition deserializeLocation :: "BufferParser \<Rightarrow> exn + Location \<times> BufferParser" where
  "deserializeLocation parser =
     andThen (readUInt32BE parser) (\<lambda>(alarm, parser).
     andThen (readUInt32BE parser) (\<lambda>(status, parser).
     andThen (readUInt32BE parser) (\<lambda>(lat, parser).
     andThen (readUInt32BE parser) (\<lambda>(lon, parser).
     andThen (readUInt16BE parser) (\<lambda>(alt, parser).
     andThen (readUInt16BE parser) (\<lambda>(spd, parser).
     andThen (readUInt16BE parser) (\<lambda>(dir, parser).
     andThen (readBCD 6 parser) (\<lambda>(ts, parser).
       Inr (\<lparr>alarmFlag = int alarm, statusFlag = int status, latitude = int lat,
             longitude = int lon, altitude = int alt, speed = int spd,
             direction = int dir, timestamp = ts\<rparr>, parser)))))))))"

text \<open>The counted loop of \<open>deserializeArray\<close> over location items.\<close>

fun deserializeLocations ::
  "nat \<Rightarrow> BufferParser \<Rightarrow> jsitem list \<Rightarrow> exn + jsitem list \<times> BufferParser" where
  "deserializeLocations 0 parser items = Inr (items, parser)"
| "deserializeLocations (Suc k) parser items =
     andThen (deserializeLocation parser)
       (\<lambda>(loc, parser). deserializeLocations k parser (items @ [LocationItem loc]))"

text \<open>
  The loop of \<open>deserializeArray\<close> over parameter items: it runs while at least 5 bytes
  remain and each round consumes at least 5 bytes.
\<close>

function deserializeParameters ::
  "BufferParser \<Rightarrow> jsitem list \<Rightarrow> exn + jsitem list \<times> BufferParser" where
  "deserializeParameters parser items =
     (if remaining parser \<ge> 5
      then (case readUInt32BE parser of
              Inl e \<Rightarrow> Inl e
            | Inr (pId, parser1) \<Rightarrow>
                (case readUInt8 parser1 of
                   Inl e \<Rightarrow> Inl e
                 | Inr (pLength, parser2) \<Rightarrow>
                     (case readBytes pLength parser2 of
                        Inl e \<Rightarrow> Inl e
                      | Inr (pValue, parser3) \<Rightarrow>
                          deserializeParameters parser3
                            (items @ [ParameterItem
                               (Parameter (int pId) (int pLength) pValue)]))))
      else Inr (items, parser))"
  by pat_completeness auto
termination
proof (relation "measure (\<lambda>(parser, items). length (buffer parser) - offset parser)")
  show "wf (measure (\<lambda>(parser, items). length (buffer parser) - offset parser))"
    by simp
next
  fix parser :: BufferParser and items :: "jsitem list"
    and x2 x y and x2a xa ya and x2b xb yb
  assume "5 \<le> remaining parser"
    and "readUInt32BE parser = Inr x2" and "(x, y) = x2"
    and "readUInt8 y = Inr x2a" and "(xa, ya) = x2a"
    and "readBytes xa ya = Inr x2b" and "(xb, yb) = x2b"
  then show "((yb, items @ [ParameterItem (Parameter (int x) (int xa) xb)]), parser, items)
      \<in> measure (\<lambda>(parser, items). length (buffer parser) - offset parser)"
    by (auto simp: readUInt32BE_def readUInt8_def readBytes_def andThen_def
        buffer_readUInt32BE_def buffer_readUInt8_def overflows_def Let_def
        split: if_splits)
qed

declare deserializeParameters.simps [simp del]

text \<open>
  \<open>deserializeArray\<close>. For location items the count is read from the buffer only when
  the schema has a \<open>countField\<close>; otherwise it is 1.
\<close>

definition deserializeArray ::
  "FieldSchema \<Rightarrow> BufferParser \<Rightarrow> exn + jsitem list \<times> BufferParser" where
  "deserializeArray f parser =
     (if itemType f = Some ''location''
      then andThen (if countField f then readUInt16BE parser else Inr (1, parser))
             (\<lambda>(itemCount, parser). deserializeLocations itemCount parser [])
      else if itemType f = Some ''parameter''
      then deserializeParameters parser []
      else Inr ([], parser))"

text \<open>
  \<open>deserializeField\<close>. \<open>parser.remaining()\<close> is never negative, since no read moves
  the offset past the end of the buffer. A fixed-length string, BCD or bytes field whose
  schema gives no \<open>length\<close> does not occur in the registry; JavaScript would go on
  with a \<open>NaN\<close> offset, which the model does not follow: it stops with an error.
\<close>

definition undefinedLength :: exn where
  "undefinedLength = TypeError ''field length is undefined''"

definition deserializeField ::
  "FieldSchema \<Rightarrow> BufferParser \<Rightarrow> exn + jsvalue \<times> BufferParser" where
  "deserializeField f parser =
     (if type f = ''uint8''
      then andThen (readUInt8 parser) (\<lambda>(v, parser). Inr (JNumber (int v), parser))
      else if type f = ''uint16''
      then andThen (readUInt16BE parser) (\<lambda>(v, parser). Inr (JNumber (int v), parser))
      else if type f = ''uint32''
      then andThen (readUInt32BE parser) (\<lambda>(v, parser). Inr (JNumber (int v), parser))
      else if type f = ''string''
      then andThen
             (if variable f then readASCII (nat (remaining parser)) parser
              else (case fieldLength f of
                      Some len \<Rightarrow> readASCII len parser
                    | None \<Rightarrow> Inl undefinedLength))
             (\<lambda>(v, parser). Inr (JString v, parser))
      else if type f = ''bcd''
      then andThen
             (case fieldLength f of
                Some len \<Rightarrow> readBCD len parser
              | None \<Rightarrow> Inl undefinedLength)
             (\<lambda>(v, parser). Inr (JString v, parser))
      else if type f = ''bytes''
      then andThen
             (if variable f then readBytes (nat (remaining parser)) parser
              else (case fieldLength f of
                      Some len \<Rightarrow> readBytes len parser
                    | None \<Rightarrow> Inl undefinedLength))
             (\<lambda>(v, parser). Inr (JBuffer v, parser))
      else if type f = ''location''
      then andThen (deserializeLocation parser) (\<lambda>(v, parser). Inr (JLocation v, parser))
      else if type f = ''array''
      then andThen (deserializeArray f parser) (\<lambda>(v, parser). Inr (JArray v, parser))
      else Inl (Error (''Unknown field type: '' @ type f)))"

text \<open>
  The loop of \<open>deserialize\<close> over the fields: an exception of a field is thrown again
  as an \<open>Error\<close> that names the field.
\<close>

fun deserializeFields ::
  "FieldSchema list \<Rightarrow> BufferParser \<Rightarrow> jsobject \<Rightarrow> exn + jsobject" where
  "deserializeFields [] parser data = Inr data"
| "deserializeFields (f # rest) parser data =
     (case deserializeField f parser of
        Inl e \<Rightarrow>
          Inl (Error (''Error deserializing field '' @ name f @ '': '' @ message e))
      | Inr (v, parser') \<Rightarrow> deserializeFields rest parser' (data(name f \<mapsto> v)))"

definition deserialize :: "nat \<Rightarrow> buffer \<Rightarrow> exn + jsobject" where
  "deserialize messageId' messageBody =
     (case MESSAGE_STRUCTURES messageId' of
        None \<Rightarrow> Inl (Error (unknownMessageId messageId'))
      | Some structure \<Rightarrow>
          deserializeFields (fields structure) (newBufferParser messageBody) Map.empty)"

section \<open>Validation\<close>

text \<open>
  The objects \<open>{ valid: true }\<close> and \<open>{ valid: false, error }\<close> returned by the field
  checks.
\<close>

datatype FieldValidation = Valid | Invalid string

text \<open>
  \<open>validateFieldType\<close>. A buffer and an array are JavaScript objects too, so the
  \<open>location\<close> case accepts them. \<open>/^\d+$/\<close> holds of a non-empty string of digits.
\<close>

definition isInteger :: "jsvalue \<Rightarrow> bool" where
  "isInteger v = (case v of JNumber n \<Rightarrow> True | _ \<Rightarrow> False)"

definition numberValue :: "jsvalue \<Rightarrow> int" where
  "numberValue v = (case v of JNumber n \<Rightarrow> n | _ \<Rightarrow> 0)"

definition validateFieldType :: "FieldSchema \<Rightarrow> jsvalue \<Rightarrow> FieldValidation" where
  "validateFieldType f v =
     (if type f = ''uint8''
      then (if \<not> isInteger v \<or> numberValue v < 0 \<or> numberValue v > 255
            then Invalid ''Must be integer between 0-255'' else Valid)
      else if type f = ''uint16''
      then (if \<not> isInteger v \<or> numberValue v < 0 \<or> numberValue v > 65535
            then Invalid ''Must be integer between 0-65535'' else Valid)
      else if type f = ''uint32''
      then (if \<not> isInteger v \<or> numberValue v < 0 \<or> numberValue v > 4294967295
            then Invalid ''Must be integer between 0-4294967295'' else Valid)
      else if type f = ''string''
      then (case v of
              JString s \<Rightarrow>
                (case fieldLength f of
                   Some len \<Rightarrow>
                     if len \<noteq> 0 \<and> length s > len
                     then Invalid (''String too long, max length: '' @ toString len)
                     else Valid
                 | None \<Rightarrow> Valid)
            | _ \<Rightarrow> Invalid ''Must be string'')
      else if type f = ''bcd''
      then (case v of
              JString s \<Rightarrow>
                if s = [] \<or> \<not> (\<forall>c \<in> set s. c \<in> set ''0123456789'')
                then Invalid ''Must be numeric string for BCD''
                else (case fieldLength f of
                        Some len \<Rightarrow>
                          if len \<noteq> 0 \<and> length s \<noteq> len * 2
                          then Invalid (''BCD string length must be '' @ toString (len * 2) @
                                        '' digits'')
                          else Valid
                      | None \<Rightarrow> Valid)
            | _ \<Rightarrow> Invalid ''Must be numeric string for BCD'')
      else if type f = ''bytes''
      then (case v of JBuffer b \<Rightarrow> Valid | _ \<Rightarrow> Invalid ''Must be Buffer'')
      else if type f = ''array''
      then (case v of JArray items \<Rightarrow> Valid | _ \<Rightarrow> Invalid ''Must be array'')
      else if type f = ''location''
      then (case v of
              JNumber n \<Rightarrow> Invalid ''Must be location object''
            | JString s \<Rightarrow> Invalid ''Must be location object''
            | _ \<Rightarrow> Valid)
      else Invalid (''Unknown field type: '' @ type f))"

text \<open>
  \<open>validateFieldConstraints\<close>: each of its four checks applies only when the schema
  declares \<open>min\<close>, \<open>max\<close>, \<open>enum\<close> or \<open>pattern\<close>; a field of the model declares
  none of them.
\<close>

definition validateFieldConstraints :: "FieldSchema \<Rightarrow> jsvalue \<Rightarrow> FieldValidation" where
  "validateFieldConstraints f v = Valid"

fun validateFields :: "FieldSchema list \<Rightarrow> jsobject \<Rightarrow> FieldValidation" where
  "validateFields [] data = Valid"
| "validateFields (f # rest) data =
     (case data (name f) of
        None \<Rightarrow>
          if \<not> optional f then Invalid (''Missing required field: '' @ name f)
          else validateFields rest data
      | Some v \<Rightarrow>
          (case validateFieldType f v of
             Invalid e \<Rightarrow> Invalid (''Field '' @ name f @ '': '' @ e)
           | Valid \<Rightarrow>
               (case validateFieldConstraints f v of
                  Invalid e \<Rightarrow> Invalid (''Field '' @ name f @ '': '' @ e)
                | Valid \<Rightarrow> validateFields rest data)))"

text \<open>
  The object returned by \<open>validateMessage\<close>: \<open>{ valid, error }\<close>, with \<open>data\<close> and
  \<open>structure\<close> when deserialization went through. Every exception of the
  deserializer is caught and becomes an invalid result.
\<close>

datatype ValidationResult =
  ValidationResult (valid: bool) (validationError: "string option")
    (parsedData: "jsobject option") (resultStructure: "MessageStructure option")

definition validateMessage :: "nat \<Rightarrow> buffer \<Rightarrow> ValidationResult" where
  "validateMessage messageId' messageBody =
     (case MESSAGE_STRUCTURES messageId' of
        None \<Rightarrow> ValidationResult False (Some (unknownMessageId messageId')) None None
      | Some structure \<Rightarrow>
          (case deserialize messageId' messageBody of
             Inl e \<Rightarrow>
               ValidationResult False (Some (''Validation error: '' @ message e)) None None
           | Inr parsed \<Rightarrow>
               (case validateFields (fields structure) parsed of
                  Valid \<Rightarrow> ValidationResult True None (Some parsed) (Some structure)
                | Invalid e \<Rightarrow>
                    ValidationResult False (Some e) (Some parsed) (Some structure))))"

section \<open>Serialization\<close>

text \<open>
  Node's buffer writes, each on a fresh buffer of the width written: they throw a
  \<open>RangeError\<close> on a value outside the range of the width.
\<close>

definition valueOutOfRange :: exn where
  "valueOutOfRange = RangeError ''The value of value is out of range''"

definition writeUInt8 :: "int \<Rightarrow> exn + buffer" where
  "writeUInt8 v = (if 0 \<le> v \<and> v \<le> 255 then Inr [of_int v] else Inl valueOutOfRange)"

definition writeUInt16BE :: "int \<Rightarrow> exn + buffer" where
  "writeUInt16BE v =
     (if 0 \<le> v \<and> v \<le> 65535 then Inr [of_int (v div 2 ^ 8), of_int v]
      else Inl valueOutOfRange)"

definition writeUInt32BE :: "int \<Rightarrow> exn + buffer" where
  "writeUInt32BE v =
     (if 0 \<le> v \<and> v \<le> 4294967295
      then Inr [of_int (v div 2 ^ 24), of_int (v div 2 ^ 16), of_int (v div 2 ^ 8), of_int v]
      else Inl valueOutOfRange)"

text \<open>\<open>Buffer.from(str, 'ascii')\<close>: one byte for each character.\<close>

definition fromAscii :: "string \<Rightarrow> buffer" where
  "fromAscii s = map of_char s"

text \<open>
  \<open>serializeLocation\<close>: seven numbers and the BCD timestamp written one after the
  other into 28 bytes. \<open>x || 0\<close> is \<open>x\<close> on a number; an empty timestamp is replaced
  by twelve zeros.
\<close>

definition serializeLocation :: "Location \<Rightarrow> exn + buffer" where
  "serializeLocation location =
     andThen (writeUInt32BE (alarmFlag location)) (\<lambda>b1.
     andThen (writeUInt32BE (statusFlag location)) (\<lambda>b2.
     andThen (writeUInt32BE (latitude location)) (\<lambda>b3.
     andThen (writeUInt32BE (longitude location)) (\<lambda>b4.
     andThen (writeUInt16BE (altitude location)) (\<lambda>b5.
     andThen (writeUInt16BE (speed location)) (\<lambda>b6.
     andThen (writeUInt16BE (direction location)) (\<lambda>b7.
       let timestampBCD =
             stringToBCD (if timestamp location = [] then ''000000000000''
                          else timestamp location) 6
       in Inr (copy timestampBCD (b1 @ b2 @ b3 @ b4 @ b5 @ b6 @ b7 @ alloc 6) 22))))))))"

text \<open>
  A value whose JavaScript type is not the one the field expects is outside what the
  model follows; the number writes and \<open>padStart\<close> throw a \<open>TypeError\<close> on it in
  Node, and so do all such branches of the model.
\<close>

definition invalidArgType :: exn where
  "invalidArgType = TypeError ''The argument is not of the expected type''"

text \<open>The loops of \<open>serializeArray\<close>: one buffer for each item.\<close>

fun serializeLocationItems :: "jsitem list \<Rightarrow> exn + buffer list" where
  "serializeLocationItems [] = Inr []"
| "serializeLocationItems (item # rest) =
     andThen (case item of
                LocationItem l \<Rightarrow> serializeLocation l
              | ParameterItem p \<Rightarrow> Inl invalidArgType)
       (\<lambda>b. andThen (serializeLocationItems rest) (\<lambda>bs. Inr (b # bs)))"

fun serializeParameterItems :: "jsitem list \<Rightarrow> exn + buffer list" where
  "serializeParameterItems [] = Inr []"
| "serializeParameterItems (item # rest) =
     andThen (case item of
                ParameterItem p \<Rightarrow>
                  andThen (writeUInt32BE (parameterId p)) (\<lambda>b1.
                  andThen (writeUInt8 (parameterLength p)) (\<lambda>b2.
                    Inr (copy (parameterValue p)
                           (b1 @ b2 @ alloc (length (parameterValue p))) 5)))
              | LocationItem l \<Rightarrow> Inl invalidArgType)
       (\<lambda>b. andThen (serializeParameterItems rest) (\<lambda>bs. Inr (b # bs)))"

definition serializeArray :: "FieldSchema \<Rightarrow> jsitem list \<Rightarrow> exn + buffer" where
  "serializeArray f items =
     (if itemType f = Some ''location''
      then andThen (serializeLocationItems items) (\<lambda>buffers. Inr (concat buffers))
      else if itemType f = Some ''parameter''
      then andThen (serializeParameterItems items) (\<lambda>buffers. Inr (concat buffers))
      else Inr [])"

definition serializeField :: "FieldSchema \<Rightarrow> jsvalue \<Rightarrow> exn + buffer" where
  "serializeField f v =
     (if type f = ''uint8''
      then (case v of JNumber n \<Rightarrow> writeUInt8 n | _ \<Rightarrow> Inl invalidArgType)
      else if type f = ''uint16''
      then (case v of JNumber n \<Rightarrow> writeUInt16BE n | _ \<Rightarrow> Inl invalidArgType)
      else if type f = ''uint32''
      then (case v of JNumber n \<Rightarrow> writeUInt32BE n | _ \<Rightarrow> Inl invalidArgType)
      else if type f = ''string''
      then (case v of
              JString s \<Rightarrow>
                if variable f then Inr (fromAscii s)
                else (case fieldLength f of
                        Some len \<Rightarrow>
                          let stringBuffer = alloc len
                          in Inr (copy (take (min (length s) len) (fromAscii s)) stringBuffer 0)
                      | None \<Rightarrow> Inl invalidArgType)
            | _ \<Rightarrow> Inl invalidArgType)
      else if type f = ''bcd''
      then (case v of
              JString s \<Rightarrow>
                (case fieldLength f of
                   Some len \<Rightarrow> Inr (stringToBCD s len)
                 | None \<Rightarrow> Inl invalidArgType)
            | _ \<Rightarrow> Inl invalidArgType)
      else if type f = ''bytes''
      then (case v of JBuffer b \<Rightarrow> Inr b | _ \<Rightarrow> Inl invalidArgType)
      else if type f = ''location''
      then (case v of JLocation l \<Rightarrow> serializeLocation l | _ \<Rightarrow> Inl invalidArgType)
      else if type f = ''array''
      then (case v of JArray items \<Rightarrow> serializeArray f items | _ \<Rightarrow> Inl invalidArgType)
      else Inl (Error (''Unknown field type: '' @ type f)))"

text \<open>The loop of \<open>serialize\<close> over the fields: one buffer for each field present.\<close>

fun serializeFields :: "FieldSchema list \<Rightarrow> jsobject \<Rightarrow> exn + buffer list" where
  "serializeFields [] data = Inr []"
| "serializeFields (f # rest) data =
     (case data (name f) of
        Some v \<Rightarrow>
          andThen (serializeField f v)
            (\<lambda>fieldBuffer. andThen (serializeFields rest data)
               (\<lambda>buffers. Inr (fieldBuffer # buffers)))
      | None \<Rightarrow>
          if \<not> optional f then Inl (Error (''Missing required field: '' @ name f))
          else serializeFields rest data)"

definition serialize :: "nat \<Rightarrow> jsobject \<Rightarrow> exn + buffer" where
  "serialize messageId' data =
     (case MESSAGE_STRUCTURES messageId' of
        None \<Rightarrow> Inl (Error (unknownMessageId messageId'))
      | Some structure \<Rightarrow>
          andThen (serializeFields (fields structure) data)
            (\<lambda>buffers. Inr (concat buffers)))"

section \<open>Notions used to state the properties\<close>

text \<open>
  What one byte contributes to the string built by \<open>readBCD\<close>: the decimal
  rendering of its high nibble, then that of its low nibble.
\<close>

definition bcdDigits :: "byte \<Rightarrow> string" where
  "bcdDigits b = toString (unat b div 16) @ toString (unat b mod 16)"

text \<open>
  The byte that the loop of \<open>stringToBCD\<close> writes at index \<open>i\<close>, from the characters
  \<open>2 i\<close> and \<open>2 i + 1\<close> of the padded string.
\<close>

definition bcdByte :: "string \<Rightarrow> nat \<Rightarrow> byte" where
  "bcdByte paddedStr i =
     of_nat (push_bit 4 (toInt32 (parseIntAt paddedStr (i * 2))) OR
             toInt32 (parseIntAt paddedStr (i * 2 + 1)))"






text \<open>
  Two location records for concrete runs: the one of the repository's serializer test,
  and a second that differs from it.
\<close>

definition sampleLocation1 :: Location where
  "sampleLocation1 =
     \<lparr>alarmFlag = 1, statusFlag = 3, latitude = 39904200, longitude = 116407400,
      altitude = 100, speed = 605, direction = 90, timestamp = ''231222143000''\<rparr>"

definition sampleLocation2 :: Location where
  "sampleLocation2 =
     \<lparr>alarmFlag = 2, statusFlag = 3, latitude = 39904300, longitude = 116407500,
      altitude = 101, speed = 610, direction = 91, timestamp = ''231222143010''\<rparr>"

section \<open>Properties of the frame codec\<close>

lemma indexOf_notin: "v \<notin> set xs \<Longrightarrow> indexOf xs v = - 1"
  by (induction xs) auto

lemma indexOf_first: "v \<notin> set pre \<Longrightarrow> indexOf (pre @ v # rest) v = int (length pre)"
  by (induction pre) (auto simp: Let_def)

lemma lastIndexOf_notin: "v \<notin> set xs \<Longrightarrow> lastIndexOf xs v = - 1"
  by (induction xs) (auto simp: Let_def)

lemma lastIndexOf_last: "v \<notin> set post \<Longrightarrow> lastIndexOf (pre @ v # post) v = int (length pre)"
  by (induction pre) (auto simp: Let_def lastIndexOf_notin)

lemma checksumLoop_fold:
  "i + k \<le> length buf \<Longrightarrow>
   checksumLoop buf i k c = fold (\<lambda>b acc. acc XOR b) (take k (drop i buf)) c"
proof (induction buf i k c rule: checksumLoop.induct)
  case (1 buffer i checksum)
  then show ?case by simp
next
  case (2 buffer i k checksum)
  then have "i < length buffer" by simp
  then have "take (Suc k) (drop i buffer) = buffer ! i # take k (drop (Suc i) buffer)"
    by (simp add: Cons_nth_drop_Suc[symmetric])
  with 2 show ?case by simp
qed

lemma calculateChecksum_fold: "calculateChecksum b = fold (\<lambda>b acc. acc XOR b) b 0"
  by (simp add: calculateChecksum_def calculateChecksumRange_def checksumLoop_fold)

lemma sliceBuffer_between:
  "sliceBuffer (pre @ x # mid @ y # post) (int (length pre) + 1) (int (length pre) + 1 + int (length mid) - 1)
     = butlast mid"
proof (cases mid rule: rev_cases)
  case Nil
  then show ?thesis by (simp add: sliceBuffer_def clampIndex_def Let_def)
next
  case (snoc ys z)
  then show ?thesis
    by (simp add: sliceBuffer_def clampIndex_def Let_def nat_add_distrib min_def)
qed

lemma nth_before_end:
  "(pre @ x # mid @ y # post) ! nat (int (length pre) + 1 + int (length mid) - 1) = last (x # mid)"
proof (cases mid rule: rev_cases)
  case Nil
  then show ?thesis by (simp add: nth_append)
next
  case (snoc ys z)
  have "nat (int (length pre) + 1 + int (length mid) - 1) = length pre + length mid"
    by simp
  then show ?thesis using snoc by (simp add: nth_append nth_Cons')
qed

lemma unwrapMessage_frame:
  assumes "0x7E \<notin> set pre" and "0x7E \<notin> set post"
  shows "unwrapMessage (pre @ 0x7E # mid @ 0x7E # post) =
    \<lparr>messageData = Some (butlast mid),
     isValid = (calculateChecksum (butlast mid) = last (0x7E # mid)),
     error = None\<rparr>"
proof -
  let ?f = "pre @ 0x7E # mid @ 0x7E # post"
  have s: "indexOf ?f 0x7E = int (length pre)"
    using assms(1) by (rule indexOf_first)
  have "lastIndexOf ((pre @ 0x7E # mid) @ 0x7E # post) 0x7E = int (length (pre @ 0x7E # mid))"
    using assms(2) by (rule lastIndexOf_last)
  then have e: "lastIndexOf ?f 0x7E = int (length pre) + 1 + int (length mid)"
    by simp
  have sl: "sliceBuffer ?f (int (length pre) + 1) (int (length pre) + 1 + int (length mid) - 1) = butlast mid"
    by (rule sliceBuffer_between)
  have nth: "?f ! nat (int (length pre) + 1 + int (length mid) - 1) = last (0x7E # mid)"
    by (rule nth_before_end)
  have short: "length ?f < 3 \<Longrightarrow> calculateChecksum (butlast mid) \<noteq> last (0x7E # mid)"
    by (cases mid) (simp_all add: calculateChecksum_fold)
  have v: "validateMessageChecksum ?f = (calculateChecksum (butlast mid) = last (0x7E # mid))"
    unfolding validateMessageChecksum_def Let_def s e sl nth using short by auto
  show ?thesis
    unfolding unwrapMessage_def Let_def s e sl v by simp
qed

lemma unwrapMessage_malformed:
  assumes "count_list f 0x7E < 2"
  shows "unwrapMessage f =
    \<lparr>messageData = None, isValid = False, error = Some ''Invalid message format''\<rparr>"
proof (cases "0x7E \<in> set f")
  case False
  then show ?thesis by (simp add: unwrapMessage_def indexOf_notin)
next
  case True
  then obtain pre post where f: "f = pre @ 0x7E # post" and pre: "0x7E \<notin> set pre"
    by (meson split_list_first)
  have "count_list post 0x7E = 0"
    using assms f by simp
  then have post: "0x7E \<notin> set post"
    by (simp add: count_list_0_iff)
  show ?thesis
    unfolding f unwrapMessage_def Let_def
    by (simp add: indexOf_first[OF pre] lastIndexOf_last[OF post])
qed

lemma two_delimiters_split:
  assumes "2 \<le> count_list f (v::byte)"
  shows "\<exists>pre mid post. f = pre @ v # mid @ v # post \<and> v \<notin> set pre \<and> v \<notin> set post"
proof -
  have "v \<in> set f" using assms by (metis count_list_0_iff not_numeral_le_zero)
  then obtain pre rest where f: "f = pre @ v # rest" and pre: "v \<notin> set pre"
    by (meson split_list_first)
  have "count_list pre v = 0" using pre by (simp add: count_list_0_iff)
  then have "1 \<le> count_list rest v" using assms f by simp
  then have "v \<in> set rest" by (metis count_list_0_iff not_one_le_zero)
  then obtain mid post where r: "rest = mid @ v # post" and post: "v \<notin> set post"
    by (meson split_list_last)
  show ?thesis using f r pre post by blast
qed


lemma flip_bit_neq: "k < 8 \<Longrightarrow> flip_bit k (w :: byte) \<noteq> w"
proof
  assume k: "k < 8" and eq: "flip_bit k w = w"
  have "bit (flip_bit k w) k \<longleftrightarrow> \<not> bit w k"
    using k by (simp add: bit_flip_bit_iff)
  with eq show False by simp
qed

lemma alloc_plus3: "alloc (n + 3) = 0 # replicate n 0 @ [0, 0]"
  unfolding alloc_def by (induction n) (simp_all add: numeral_3_eq_3)

lemma copy_at_1: "copy b (x # replicate (length b) 0 @ [y, z]) (Suc 0) = x # b @ [y, z]"
  by (simp add: copy_def Let_def)

lemma wrapMessage_eq: "wrapMessage b = 0x7E # b @ [calculateChecksum b, 0x7E]"
proof -
  have "wrapMessage b =
      ((0x7E # b @ [0, 0])[Suc (length b) := calculateChecksum b])[Suc (Suc (length b)) := 0x7E]"
    unfolding wrapMessage_def Let_def alloc_plus3 by (simp add: copy_at_1)
  also have "\<dots> = 0x7E # b @ [calculateChecksum b, 0x7E]"
    by (simp add: list_update_append)
  finally show ?thesis .
qed

lemma unwrapMessage_any_checksum:
  "unwrapMessage (0x7E # b @ [c, 0x7E]) =
     \<lparr>messageData = Some b, isValid = (calculateChecksum b = c), error = None\<rparr>"
  using unwrapMessage_frame[of "[]" "[]" "b @ [c]"] by simp

text \<open>
  Claim C3 (as amended). \<open>unwrapMessage\<close> reports the format error exactly when the
  buffer holds fewer than two \<open>0x7E\<close> bytes (none, or the first and the last
  coincide). Otherwise the buffer splits at its first and its last delimiter and, with
  \<open>mid\<close> the bytes strictly between them, it returns as body \<open>mid\<close> without its
  last byte, and \<open>isValid\<close> holds exactly when the XOR of that body equals the byte
  just before the trailing delimiter. A frame shorter than 3 bytes is not a separate
  format error.
\<close>

theorem unwrapMessage_cases:
  "((error (unwrapMessage f) = Some ''Invalid message format'') = (count_list f 0x7E < 2)) \<and>
   (count_list f 0x7E < 2 \<longrightarrow>
      unwrapMessage f =
        \<lparr>messageData = None, isValid = False, error = Some ''Invalid message format''\<rparr>) \<and>
   (2 \<le> count_list f 0x7E \<longrightarrow>
      (\<exists>pre mid post.
         f = pre @ 0x7E # mid @ 0x7E # post \<and> 0x7E \<notin> set pre \<and> 0x7E \<notin> set post)) \<and>
   (\<forall>pre mid post.
      f = pre @ 0x7E # mid @ 0x7E # post \<and> 0x7E \<notin> set pre \<and> 0x7E \<notin> set post \<longrightarrow>
      unwrapMessage f =
        \<lparr>messageData = Some (butlast mid),
         isValid = (fold (\<lambda>b acc. acc XOR b) (butlast mid) 0 = last (0x7E # mid)),
         error = None\<rparr>)"
proof (intro conjI allI impI)
  show "(error (unwrapMessage f) = Some ''Invalid message format'') = (count_list f 0x7E < 2)"
  proof (cases "count_list f 0x7E < 2")
    case True
    then show ?thesis by (simp add: unwrapMessage_malformed)
  next
    case False
    then have "2 \<le> count_list f 0x7E" by simp
    then obtain pre mid post where
      "f = pre @ 0x7E # mid @ 0x7E # post" "0x7E \<notin> set pre" "0x7E \<notin> set post"
      using two_delimiters_split by blast
    then show ?thesis using False by (simp add: unwrapMessage_frame)
  qed
next
  assume "count_list f 0x7E < 2"
  then show "unwrapMessage f =
    \<lparr>messageData = None, isValid = False, error = Some ''Invalid message format''\<rparr>"
    by (rule unwrapMessage_malformed)
next
  assume "2 \<le> count_list f 0x7E"
  then show "\<exists>pre mid post.
      f = pre @ 0x7E # mid @ 0x7E # post \<and> 0x7E \<notin> set pre \<and> 0x7E \<notin> set post"
    by (rule two_delimiters_split)
next
  fix pre mid post
  assume "f = pre @ 0x7E # mid @ 0x7E # post \<and> 0x7E \<notin> set pre \<and> 0x7E \<notin> set post"
  then show "unwrapMessage f =
        \<lparr>messageData = Some (butlast mid),
         isValid = (fold (\<lambda>b acc. acc XOR b) (butlast mid) 0 = last (0x7E # mid)),
         error = None\<rparr>"
    by (simp add: unwrapMessage_frame calculateChecksum_fold)
qed

text \<open>
  The three outcomes at concrete frames: no delimiter, a matching checksum and a
  mismatching one.
\<close>

theorem unwrapMessage_cases_witness:
  "unwrapMessage [0x01, 0x02, 0x03] =
     \<lparr>messageData = None, isValid = False, error = Some ''Invalid message format''\<rparr> \<and>
   unwrapMessage [0x7E, 0x01, 0x02, 0x03, 0x00, 0x7E] =
     \<lparr>messageData = Some [0x01, 0x02, 0x03], isValid = True, error = None\<rparr> \<and>
   unwrapMessage [0x7E, 0x01, 0x02, 0x03, 0xFF, 0x7E] =
     \<lparr>messageData = Some [0x01, 0x02, 0x03], isValid = False, error = None\<rparr>"
proof -
  have a: "unwrapMessage [0x01, 0x02, 0x03] =
     \<lparr>messageData = None, isValid = False, error = Some ''Invalid message format''\<rparr>"
    using unwrapMessage_cases [of "[0x01, 0x02, 0x03]"] by simp
  have b: "unwrapMessage [0x7E, 0x01, 0x02, 0x03, 0x00, 0x7E] =
     \<lparr>messageData = Some [0x01, 0x02, 0x03], isValid = True, error = None\<rparr>"
    using unwrapMessage_cases [of "[0x7E, 0x01, 0x02, 0x03, 0x00, 0x7E]",
        THEN conjunct2, THEN conjunct2, THEN conjunct2, rule_format,
        of "[]" "[0x01, 0x02, 0x03, 0x00]" "[]"]
    by simp
  have c: "unwrapMessage [0x7E, 0x01, 0x02, 0x03, 0xFF, 0x7E] =
     \<lparr>messageData = Some [0x01, 0x02, 0x03], isValid = False, error = None\<rparr>"
    using unwrapMessage_cases [of "[0x7E, 0x01, 0x02, 0x03, 0xFF, 0x7E]",
        THEN conjunct2, THEN conjunct2, THEN conjunct2, rule_format,
        of "[]" "[0x01, 0x02, 0x03, 0xFF]" "[]"]
    by simp
  from a b c show ?thesis by (intro conjI)
qed

text \<open>
  Claim C3 as stated fails on the two-byte frame \<open>7E 7E\<close>: its length is below 3,
  yet the result carries no format error (and an empty body).
\<close>

theorem unwrapMessage_short_frame_counterexample:
  "length [0x7E, 0x7E :: byte] < 3 \<and>
   unwrapMessage [0x7E, 0x7E] = \<lparr>messageData = Some [], isValid = False, error = None\<rparr>"
  by (simp add: unwrapMessage_def validateMessageChecksum_def sliceBuffer_def clampIndex_def)



text \<open>
  Claim C8. Flipping any single bit \<open>k < 8\<close> of the checksum byte (the byte at
  position \<open>length - 2\<close>) of a wrapped frame makes \<open>unwrapMessage\<close> report an invalid
  checksum: \<open>isValid\<close> is false, while the body is still extracted and no format
  error is set.
\<close>

theorem checksum_bit_flip_detected:
  "k < 8 \<Longrightarrow>
   (let w = wrapMessage b; i = length w - 2;
        r = unwrapMessage (w[i := flip_bit k (w ! i)])
    in \<not> isValid r \<and> error r = None \<and> messageData r = Some b)"
proof -
  assume k: "k < 8"
  let ?c = "calculateChecksum b"
  have w: "wrapMessage b = 0x7E # b @ [?c, 0x7E]" by (rule wrapMessage_eq)
  have i: "length (wrapMessage b) - 2 = Suc (length b)" by (simp add: w)
  have nth: "wrapMessage b ! Suc (length b) = ?c" by (simp add: w nth_append)
  have upd: "(wrapMessage b)[Suc (length b) := x] = 0x7E # b @ [x, 0x7E]" for x
    by (simp add: w list_update_append)
  show ?thesis
    unfolding Let_def i nth upd unwrapMessage_any_checksum
    using flip_bit_neq[OF k, of ?c] by simp
qed

theorem checksum_bit_flip_detected_witness:
  "(3::nat) < 8 \<and>
   \<not> isValid (unwrapMessage ((wrapMessage [0x01, 0x02, 0x03])[4 := flip_bit 3 (wrapMessage [0x01, 0x02, 0x03] ! 4)]))"
  using checksum_bit_flip_detected [of 3 "[0x01, 0x02, 0x03]"]
  by (simp add: wrapMessage_eq Let_def)

section \<open>Properties of the buffer parser\<close>

lemma nibble_low: "unat (b::byte) AND 0x0F = unat b mod 16"
proof -
  have "unat b AND mask 4 = take_bit 4 (unat b)" by (simp add: take_bit_eq_mask)
  then show ?thesis by (simp add: take_bit_eq_mod mask_eq_exp_minus_1)
qed

lemma nibble_high: "drop_bit 4 (unat (b::byte)) AND 0x0F = unat b div 16"
proof -
  have lt: "unat b < 256" using unsigned_less[of b, where ?'a = nat] by simp
  have "drop_bit 4 (unat b) AND mask 4 = take_bit 4 (drop_bit 4 (unat b))"
    by (simp add: take_bit_eq_mask)
  also have "\<dots> = (unat b div 16) mod 16"
    by (simp add: take_bit_eq_mod drop_bit_eq_div)
  also have "\<dots> = unat b div 16" using lt by simp
  finally show ?thesis by (simp add: mask_eq_exp_minus_1)
qed

lemma toString_digit: "d < 10 \<Longrightarrow> toString d = [digitChar d]"
  by (simp add: toString_def)

lemma readBCDLoop_eq:
  "off + i + k \<le> length b \<Longrightarrow>
   readBCDLoop b off i k acc = Inr (acc @ concat (map bcdDigits (take k (drop (off + i) b))))"
proof (induction k arbitrary: i acc)
  case 0
  then show ?case by simp
next
  case (Suc k)
  then have lt: "off + i < length b" by simp
  then have tk: "take (Suc k) (drop (off + i) b) = b ! (off + i) # take k (drop (off + Suc i) b)"
    by (simp add: Cons_nth_drop_Suc[symmetric])
  have rd: "buffer_readUInt8 b (off + i) = Inr (unat (b ! (off + i)))"
    using lt by (simp add: buffer_readUInt8_def)
  have "off + Suc i + k \<le> length b" using Suc.prems by simp
  from Suc.IH[OF this] show ?case
    by (simp add: rd andThen_def nibble_low nibble_high tk bcdDigits_def)
qed

lemma readBCD_eq:
  assumes "offset p + n \<le> length (buffer p)"
  shows "readBCD n p =
     Inr (concat (map bcdDigits (take n (drop (offset p) (buffer p)))), p\<lparr>offset := offset p + n\<rparr>)"
proof -
  have "\<not> overflows p n" using assms by (simp add: overflows_def)
  then show ?thesis
    using readBCDLoop_eq[of "offset p" 0 n "buffer p" "''''"] assms
    by (simp add: readBCD_def andThen_def)
qed

lemma readBCD_overflow:
  assumes "\<not> offset p + n \<le> length (buffer p)"
  shows "readBCD n p = Inl (Error (overflowMessage ''BCD '' p))"
proof -
  have "overflows p n" using assms by (simp add: overflows_def)
  then show ?thesis by (simp add: readBCD_def)
qed

lemma bcdDigits_length:
  "unat b div 16 \<le> 9 \<Longrightarrow> unat b mod 16 \<le> 9 \<Longrightarrow> length (bcdDigits b) = 2"
  by (simp add: bcdDigits_def toString_digit)

lemma concat_bcd_length:
  "\<forall>b \<in> set bs. unat b div 16 \<le> 9 \<and> unat b mod 16 \<le> 9 \<Longrightarrow>
   length (concat (map bcdDigits bs)) = 2 * length bs"
  by (induction bs) (simp_all add: bcdDigits_length)

text \<open>
  Claim C6 (as amended). At every buffer position with at least \<open>n\<close> bytes remaining,
  \<open>readBCD(n)\<close> consumes exactly \<open>n\<close> bytes and returns, byte after byte, the decimal
  rendering of the high nibble followed by that of the low nibble, without validating the
  nibbles. When every nibble of the bytes read is in 0-9, each byte contributes exactly
  two decimal digits and the result has exactly \<open>2 n\<close> characters. Byte \<open>0x12\<close>
  decodes to \<open>"12"\<close>.
\<close>

theorem readBCD_spec:
  "int (offset p) + int n \<le> int (length (buffer p)) \<Longrightarrow>
   (let bytes = take n (drop (offset p) (buffer p))
    in readBCD n p = Inr (concat (map bcdDigits bytes), p\<lparr>offset := offset p + n\<rparr>) \<and>
       length bytes = n \<and>
       ((\<forall>b \<in> set bytes. unat b div 16 \<le> 9 \<and> unat b mod 16 \<le> 9) \<longrightarrow>
          length (concat (map bcdDigits bytes)) = 2 * n)) \<and>
   bcdDigits 0x12 = ''12''"
proof -
  assume "int (offset p) + int n \<le> int (length (buffer p))"
  then have le: "offset p + n \<le> length (buffer p)" by simp
  have len: "length (take n (drop (offset p) (buffer p))) = n" using le by simp
  have d: "bcdDigits 0x12 = ''12''" by code_simp
  show ?thesis
    unfolding Let_def using readBCD_eq[OF le] len d
    by (auto dest: concat_bcd_length)
qed

text \<open>Two bytes read from offset 1 of a three-byte buffer.\<close>

theorem readBCD_spec_witness:
  "readBCD 2 \<lparr>buffer = [0x7E, 0x12, 0x34], offset = 1\<rparr> =
     Inr (''1234'', \<lparr>buffer = [0x7E, 0x12, 0x34], offset = 3\<rparr>)"
proof -
  have e: "concat (map bcdDigits (take 2 (drop 1 [0x7E, 0x12, 0x34]))) = ''1234''"
    by code_simp
  show ?thesis
    using readBCD_spec [of "\<lparr>buffer = [0x7E, 0x12, 0x34], offset = 1\<rparr>" 2] e
    by (simp add: Let_def)
qed

text \<open>
  Claim C6 as stated fails on the byte \<open>0xAB\<close>: its nibbles 10 and 11 are rendered as
  \<open>"10"\<close> and \<open>"11"\<close>, so one byte gives four characters, not two.
\<close>

theorem readBCD_length_counterexample:
  "readBCD 1 \<lparr>buffer = [0xAB], offset = 0\<rparr> = Inr (''1011'', \<lparr>buffer = [0xAB], offset = 1\<rparr>) \<and>
   length ''1011'' \<noteq> 2 * (1::nat)"
  by code_simp

section \<open>Properties of the BCD encoder\<close>

lemma stringToBCDLoop_length [simp]: "length (stringToBCDLoop s i k buf) = length buf"
  by (induction k arbitrary: i buf) (simp_all add: Let_def)

lemma stringToBCDLoop_Suc:
  "stringToBCDLoop s i (Suc k) buf = stringToBCDLoop s (Suc i) k (buf[i := bcdByte s i])"
  by (simp add: Let_def bcdByte_def)

lemma stringToBCDLoop_nth:
  "j < length buf \<Longrightarrow>
   stringToBCDLoop s i k buf ! j = (if i \<le> j \<and> j < i + k then bcdByte s j else buf ! j)"
proof (induction k arbitrary: i buf)
  case 0
  then show ?case by auto
next
  case (Suc k)
  have len: "j < length (buf[i := bcdByte s i])" using Suc.prems by simp
  have "stringToBCDLoop s i (Suc k) buf ! j =
      (if Suc i \<le> j \<and> j < Suc i + k then bcdByte s j else buf[i := bcdByte s i] ! j)"
    unfolding stringToBCDLoop_Suc by (rule Suc.IH[OF len])
  also have "\<dots> = (if i \<le> j \<and> j < i + Suc k then bcdByte s j else buf ! j)"
    using Suc.prems by (cases "j = i") auto
  finally show ?case .
qed

lemma stringToBCD_length: "length (stringToBCD s n) = n"
  by (simp add: stringToBCD_def alloc_def Let_def)

lemma stringToBCD_nth:
  "i < n \<Longrightarrow> stringToBCD s n ! i = bcdByte (padStart s (n * 2) CHR ''0'') i"
  by (simp add: stringToBCD_def alloc_def Let_def stringToBCDLoop_nth)

lemma stringToBCD_map:
  "stringToBCD s n = map (bcdByte (padStart s (n * 2) CHR ''0'')) [0..<n]"
  by (rule nth_equalityI) (simp_all add: stringToBCD_length stringToBCD_nth)

lemma parseIntAt_take: "j < m \<Longrightarrow> parseIntAt (take m s) j = parseIntAt s j"
proof -
  assume "j < m"
  then have "(j < length (take m s)) = (j < length s)" and "take m s ! j = s ! j"
    by simp_all
  then show ?thesis unfolding parseIntAt_def by (simp only:)
qed

lemma bcdByte_take:
  "i < n \<Longrightarrow> bcdByte (take (2 * n) s) i = bcdByte s i"
  by (simp add: bcdByte_def parseIntAt_take)

lemma stringToBCD_take:
  assumes "2 * n < length s"
  shows "stringToBCD s n = stringToBCD (take (2 * n) s) n"
proof -
  have "padStart s (n * 2) CHR ''0'' = s" using assms by (simp add: padStart_def)
  moreover have "padStart (take (2 * n) s) (n * 2) CHR ''0'' = take (2 * n) s"
    using assms by (simp add: padStart_def)
  ultimately show ?thesis
    by (simp add: stringToBCD_map bcdByte_take)
qed

text \<open>
  Claim C10. \<open>stringToBCD(s, n)\<close> returns exactly \<open>n\<close> bytes; byte \<open>i\<close> encodes the
  characters \<open>2 i\<close> and \<open>2 i + 1\<close> of \<open>s\<close> left-padded with \<open>'0'\<close> characters to
  \<open>2 n\<close> characters, so a shorter string is encoded as its zero-padded form and of a
  longer string only the first \<open>2 n\<close> characters are encoded, the rest being dropped.
  The function of the same name in \<open>MessageParser\<close> computes the same buffer.
\<close>

theorem stringToBCD_spec:
  "length (stringToBCD s n) = n \<and>
   (\<forall>i<n. stringToBCD s n ! i = bcdByte (replicate (2 * n - length s) CHR ''0'' @ s) i) \<and>
   (length s < 2 * n \<longrightarrow>
      stringToBCD s n = stringToBCD (replicate (2 * n - length s) CHR ''0'' @ s) n) \<and>
   (2 * n < length s \<longrightarrow> stringToBCD s n = stringToBCD (take (2 * n) s) n) \<and>
   MessageParser_stringToBCD s n = stringToBCD s n"
proof (intro conjI allI impI)
  show "length (stringToBCD s n) = n" by (rule stringToBCD_length)
next
  fix i assume "i < n"
  then show "stringToBCD s n ! i = bcdByte (replicate (2 * n - length s) CHR ''0'' @ s) i"
    by (simp add: stringToBCD_nth padStart_def mult.commute)
next
  assume "length s < 2 * n"
  then show "stringToBCD s n = stringToBCD (replicate (2 * n - length s) CHR ''0'' @ s) n"
    by (simp add: stringToBCD_map padStart_def mult.commute)
next
  assume "2 * n < length s"
  then show "stringToBCD s n = stringToBCD (take (2 * n) s) n" by (rule stringToBCD_take)
next
  show "MessageParser_stringToBCD s n = stringToBCD s n"
    by (simp add: MessageParser_stringToBCD_def stringToBCD_def)
qed

text \<open>The padded, the exact and the over-long case at concrete strings.\<close>

theorem stringToBCD_spec_witness:
  "stringToBCD ''1234'' 3 ! 1 = 0x12 \<and>
   stringToBCD ''1234'' 3 = stringToBCD ''001234'' 3 \<and>
   stringToBCD ''12345678'' 3 = stringToBCD ''123456'' 3"
proof -
  have e: "bcdByte (replicate (2 * 3 - length ''1234'') CHR ''0'' @ ''1234'') 1 = 0x12"
    by code_simp
  have a: "stringToBCD ''1234'' 3 ! 1 = 0x12"
    using stringToBCD_spec [of "''1234''" 3, THEN conjunct2, THEN conjunct1, rule_format, of 1] e
    by simp
  have b: "stringToBCD ''1234'' 3 = stringToBCD ''001234'' 3"
    using stringToBCD_spec [of "''1234''" 3] by (simp add: numeral_2_eq_2)
  have c: "stringToBCD ''12345678'' 3 = stringToBCD ''123456'' 3"
    using stringToBCD_spec [of "''12345678''" 3] by (simp add: numeral_Bit0 numeral_Bit1)
  from a b c show ?thesis by (intro conjI)
qed

section \<open>Properties of the message parser\<close>

text \<open>
  Claim C7. \<open>detectProtocolVersion\<close> returns 2019 if the reserved bits are non-zero;
  otherwise 2019 if the message id is one of \<open>0x0001, 0x8001, 0x0102, 0x8103, 0x8104,
  0x8106, 0x8107\<close>; otherwise 2013. It never returns 2011, and its third argument (the
  message length) does not influence the result.
\<close>

theorem detectProtocolVersion_spec:
  "detectProtocolVersion m r l =
     (if r \<noteq> 0 then JT808_2019
      else if m \<in> {0x0001, 0x8001, 0x0102, 0x8103, 0x8104, 0x8106, 0x8107} then JT808_2019
      else JT808_2013) \<and>
   detectProtocolVersion m r l \<noteq> JT808_2011 \<and>
   detectProtocolVersion m r l = detectProtocolVersion m r l'"
  by (simp add: detectProtocolVersion_def)

lemma readUInt16BE_Inr:
  "readUInt16BE p = Inr (v, p') \<Longrightarrow>
   buffer p' = buffer p \<and> offset p' = offset p + 2 \<and> offset p + 2 \<le> length (buffer p)"
  by (auto simp: readUInt16BE_def andThen_def buffer_readUInt16BE_def split: if_splits)

lemma readBCD_Inr:
  "readBCD n p = Inr (v, p') \<Longrightarrow>
   buffer p' = buffer p \<and> offset p' = offset p + n \<and> offset p + n \<le> length (buffer p)"
  by (cases "offset p + n \<le> length (buffer p)") (auto simp: readBCD_eq readBCD_overflow)

lemma parseHeader_Inr:
  assumes "parseHeader data = Inr h"
  shows "messageLength h = messageProperties h AND 0x03FF \<and> getHeaderLength h \<le> length data"
  using assms
  unfolding parseHeader_def Let_def andThen_def getHeaderLength_def newBufferParser_def
  by (auto split: sum.splits prod.splits if_splits dest!: readUInt16BE_Inr readBCD_Inr)


lemma and_1023_le: "(x::nat) AND 0x03FF \<le> 1023"
proof -
  have "x AND mask 10 = take_bit 10 x" by (simp add: take_bit_eq_mask)
  moreover have "take_bit 10 x < 2 ^ 10" by (rule take_bit_nat_less_exp)
  ultimately show ?thesis by (simp add: mask_eq_exp_minus_1)
qed

lemma sliceBuffer_to_end:
  "hl \<le> length data \<Longrightarrow> sliceBuffer data (int hl) (int (length data)) = drop hl data"
  by (simp add: sliceBuffer_def clampIndex_def Let_def)

text \<open>
  Claim C2 (as amended). Whenever \<open>parseMessage\<close> returns success, the frame unwrapped
  to some message data with a valid checksum, the header is \<open>parseHeader\<close> of that
  data, \<open>header.messageLength\<close> is bits 0-9 of the properties word (so at most 1023), the
  header fits in the data (\<open>getHeaderLength(header) <= messageData.length\<close>), and the
  returned body is all the \<open>messageData.length - getHeaderLength(header)\<close> bytes after the
  header. The declared length is not compared with the number of bytes that remain.
\<close>

theorem parseMessage_success:
  "parseMessage raw = Inr (Success h b r v) \<Longrightarrow>
   (\<exists>data. messageData (unwrapMessage raw) = Some data \<and> isValid (unwrapMessage raw) \<and>
      parseHeader data = Inr h \<and>
      messageLength h = messageProperties h AND 0x03FF \<and> messageLength h \<le> 1023 \<and>
      getHeaderLength h \<le> length data \<and>
      b = drop (getHeaderLength h) data \<and>
      length b = length data - getHeaderLength h)"
proof -
  assume a: "parseMessage raw = Inr (Success h b r v)"
  then obtain data where d: "messageData (unwrapMessage raw) = Some data"
    and valid: "isValid (unwrapMessage raw)"
    and ph: "parseHeader data = Inr h"
    and b: "b = sliceBuffer data (int (getHeaderLength h)) (int (length data))"
    by (auto simp: parseMessage_def Let_def split: if_splits option.splits sum.splits)
  from parseHeader_Inr[OF ph] have ml: "messageLength h = messageProperties h AND 0x03FF"
    and hl: "getHeaderLength h \<le> length data" by simp_all
  have "b = drop (getHeaderLength h) data" using b hl by (simp add: sliceBuffer_to_end)
  then show ?thesis using d valid ph ml hl and_1023_le[of "messageProperties h"] by simp
qed


lemmas parseHeader_eval =
  parseHeader_def newBufferParser_def readUInt16BE_def buffer_readUInt16BE_def
  andThen_def readBCD_eq detectProtocolVersion_def Let_def bcdDigits_def toString_def
  digitChar_def

lemma parseMessage_frame:
  "parseMessage (0x7E # data @ [calculateChecksum data, 0x7E]) =
     (case parseHeader data of
        Inl e \<Rightarrow> Inr (Failure (message e) (0x7E # data @ [calculateChecksum data, 0x7E]))
      | Inr h \<Rightarrow>
          Inr (Success h
                 (sliceBuffer data (int (getHeaderLength h))
                    (int (getHeaderLength h) + (int (length data) - int (getHeaderLength h))))
                 (0x7E # data @ [calculateChecksum data, 0x7E]) (protocolVersion h)))"
  by (simp add: parseMessage_def unwrapMessage_any_checksum Let_def split: sum.splits)

text \<open>A registration frame with a four-byte body and a declared length of 4.\<close>

theorem parseMessage_success_witness:
  "parseMessage [0x7E, 0x01, 0x00, 0x00, 0x04, 0x12, 0x34, 0x56, 0x78, 0x90, 0x12, 0x00, 0x01,
                 0xAA, 0xBB, 0xCC, 0xDD, 0x8E, 0x7E] =
     Inr (Success
       \<lparr>messageId = 0x0100, messageProperties = 4, protocolVersion = Some JT808_2013,
        deviceId = ''123456789012'', messageSequence = 1, messagePackage = None,
        encryptionType = 0, messageLength = 4\<rparr>
       [0xAA, 0xBB, 0xCC, 0xDD]
       [0x7E, 0x01, 0x00, 0x00, 0x04, 0x12, 0x34, 0x56, 0x78, 0x90, 0x12, 0x00, 0x01,
        0xAA, 0xBB, 0xCC, 0xDD, 0x8E, 0x7E]
       (Some JT808_2013)) \<and>
   (\<exists>data. messageData (unwrapMessage [0x7E, 0x01, 0x00, 0x00, 0x04, 0x12, 0x34, 0x56, 0x78,
              0x90, 0x12, 0x00, 0x01, 0xAA, 0xBB, 0xCC, 0xDD, 0x8E, 0x7E]) = Some data \<and>
      [0xAA, 0xBB, 0xCC, 0xDD] = drop 12 data)"
proof -
  let ?data = "[0x01, 0x00, 0x00, 0x04, 0x12, 0x34, 0x56, 0x78, 0x90, 0x12, 0x00, 0x01,
                 0xAA, 0xBB, 0xCC, 0xDD] :: buffer"
  let ?raw = "[0x7E, 0x01, 0x00, 0x00, 0x04, 0x12, 0x34, 0x56, 0x78, 0x90, 0x12, 0x00, 0x01,
                 0xAA, 0xBB, 0xCC, 0xDD, 0x8E, 0x7E] :: buffer"
  let ?h = "\<lparr>messageId = 0x0100, messageProperties = 4, protocolVersion = Some JT808_2013,
        deviceId = ''123456789012'', messageSequence = 1, messagePackage = None,
        encryptionType = 0, messageLength = 4\<rparr>"
  have c: "calculateChecksum ?data = 0x8E" by (simp add: calculateChecksum_fold)
  have ph: "parseHeader ?data = Inr ?h" by (simp add: parseHeader_eval)
  have e: "parseMessage ?raw = Inr (Success ?h [0xAA, 0xBB, 0xCC, 0xDD] ?raw (Some JT808_2013))"
    using parseMessage_frame[of ?data] unfolding c ph
    by (simp add: getHeaderLength_def sliceBuffer_def clampIndex_def)
  have hl: "getHeaderLength ?h = 12" by (simp add: getHeaderLength_def)
  from parseMessage_success[OF e] hl e show ?thesis by auto
qed

text \<open>
  Claim C2 as stated fails on a frame that holds only the 12 header bytes while its
  properties word declares a body of 32 bytes: \<open>parseMessage\<close> succeeds, with an empty
  body and \<open>messageLength = 32\<close>.
\<close>

theorem parseMessage_declared_length_counterexample:
  "parseMessage [0x7E, 0x01, 0x00, 0x00, 0x20, 0x12, 0x34, 0x56, 0x78, 0x90, 0x12, 0x00, 0x01,
                 0xAA, 0x7E] =
     Inr (Success
       \<lparr>messageId = 0x0100, messageProperties = 0x20, protocolVersion = Some JT808_2013,
        deviceId = ''123456789012'', messageSequence = 1, messagePackage = None,
        encryptionType = 0, messageLength = 32\<rparr>
       []
       [0x7E, 0x01, 0x00, 0x00, 0x20, 0x12, 0x34, 0x56, 0x78, 0x90, 0x12, 0x00, 0x01, 0xAA, 0x7E]
       (Some JT808_2013)) \<and>
   messageData (unwrapMessage [0x7E, 0x01, 0x00, 0x00, 0x20, 0x12, 0x34, 0x56, 0x78, 0x90, 0x12,
                 0x00, 0x01, 0xAA, 0x7E]) =
     Some [0x01, 0x00, 0x00, 0x20, 0x12, 0x34, 0x56, 0x78, 0x90, 0x12, 0x00, 0x01] \<and>
   \<not> (32::nat) \<le>
       length [0x01, 0x00, 0x00, 0x20, 0x12, 0x34, 0x56, 0x78, 0x90, 0x12, 0x00, 0x01 :: byte] - 12"
proof -
  let ?data = "[0x01, 0x00, 0x00, 0x20, 0x12, 0x34, 0x56, 0x78, 0x90, 0x12, 0x00, 0x01] :: buffer"
  have c: "calculateChecksum ?data = 0xAA" by (simp add: calculateChecksum_fold)
  have ph: "parseHeader ?data = Inr
       \<lparr>messageId = 0x0100, messageProperties = 0x20, protocolVersion = Some JT808_2013,
        deviceId = ''123456789012'', messageSequence = 1, messagePackage = None,
        encryptionType = 0, messageLength = 32\<rparr>"
    by (simp add: parseHeader_eval)
  have u: "unwrapMessage (0x7E # ?data @ [0xAA, 0x7E]) =
      \<lparr>messageData = Some ?data, isValid = True, error = None\<rparr>"
    unfolding unwrapMessage_any_checksum c by simp
  show ?thesis
    using parseMessage_frame[of ?data] u unfolding c ph
    by (simp add: getHeaderLength_def sliceBuffer_def clampIndex_def)
qed

section \<open>Properties of the deserializer\<close>































lemma structureList_ids:
  "map fst structureList =
     [0x0100, 0x8100, 0x0102, 0x0002, 0x8001, 0x0200, 0x0704, 0x0800, 0x8103, 0x8105, 0x8801]"
  by (simp add: structureList_def TERMINAL_REGISTRATION_def TERMINAL_AUTH_def
      TERMINAL_HEARTBEAT_def LOCATION_REPORT_def LOCATION_BATCH_REPORT_def
      MULTIMEDIA_EVENT_UPLOAD_def PLATFORM_GENERAL_RESPONSE_def
      TERMINAL_REGISTRATION_RESPONSE_def SET_TERMINAL_PARAMETERS_def TERMINAL_CONTROL_def
      CAMERA_SHOT_COMMAND_def)

lemma dom_MESSAGE_STRUCTURES:
  "dom MESSAGE_STRUCTURES =
     {0x0100, 0x8100, 0x0102, 0x0002, 0x8001, 0x0200, 0x0704, 0x0800, 0x8103, 0x8105, 0x8801}"
  unfolding MESSAGE_STRUCTURES_def dom_map_of_conv_image_fst
  by (simp only: set_map[symmetric] structureList_ids) simp














text \<open>
  Claim C9. For every message id absent from the registry and every body,
  \<open>validateMessage\<close> returns (it is a total function of the model, every exception
  being caught) an invalid result whose error is \<open>Unknown message ID: 0x\<close> followed by
  the id in hexadecimal, padded to four digits.
\<close>

theorem validateMessage_unknown_id:
  "MESSAGE_STRUCTURES mid = None \<Longrightarrow>
   validateMessage mid messageBody =
     ValidationResult False
       (Some (''Unknown message ID: 0x'' @ padStart (toStringRadix 16 mid) 4 CHR ''0''))
       None None \<and>
   \<not> valid (validateMessage mid messageBody)"
  by (simp add: validateMessage_def unknownMessageId_def)

text \<open>
  The id \<open>0xFFFF\<close> is not in the registry.
\<close>

theorem validateMessage_unknown_id_witness:
  "MESSAGE_STRUCTURES 0xFFFF = None \<and>
   validateMessage 0xFFFF [] =
     ValidationResult False (Some ''Unknown message ID: 0xffff'') None None"
proof -
  have "(0xFFFF::nat) \<notin> dom MESSAGE_STRUCTURES"
    unfolding dom_MESSAGE_STRUCTURES by simp
  then have n: "MESSAGE_STRUCTURES 0xFFFF = None" by blast
  have "toStringRadix 16 0xFFFF = ''ffff''" by (simp add: digitChar_def)
  with validateMessage_unknown_id[OF n, of "[]"] n show ?thesis
    by (simp add: padStart_def)
qed

section \<open>The serializer and the deserializer on the batch location report\<close>

lemma batch_structure:
  "MESSAGE_STRUCTURES 0x0704 =
     Some (MessageStructure ''Location Batch Report'' ''up''
        [field ''dataType'' ''uint8'',
         field ''itemCount'' ''uint16'',
         (field ''locationItems'' ''array'')\<lparr>itemType := Some ''location''\<rparr>])"
  by (simp add: MESSAGE_STRUCTURES_def structureList_def TERMINAL_REGISTRATION_def
      TERMINAL_AUTH_def TERMINAL_HEARTBEAT_def PLATFORM_GENERAL_RESPONSE_def
      TERMINAL_REGISTRATION_RESPONSE_def LOCATION_REPORT_def LOCATION_BATCH_REPORT_def)

lemma serializeLocation_sample1:
  "serializeLocation sampleLocation1 =
     Inr [0, 0, 0, 1, 0, 0, 0, 3, 2, 96, 227, 200, 6, 240, 60, 104, 0, 100, 2, 93, 0, 90,
          35, 18, 34, 20, 48, 0]"
  unfolding sampleLocation1_def by code_simp

lemma serializeLocation_sample2:
  "serializeLocation sampleLocation2 =
     Inr [0, 0, 0, 2, 0, 0, 0, 3, 2, 96, 228, 44, 6, 240, 60, 204, 0, 101, 2, 98, 0, 91,
          35, 18, 34, 20, 48, 16]"
  unfolding sampleLocation2_def by code_simp

lemma deserializeLocation_sample1:
  "deserializeLocation
     \<lparr>buffer = [0, 0, 2,
         0, 0, 0, 1, 0, 0, 0, 3, 2, 96, 227, 200, 6, 240, 60, 104, 0, 100, 2, 93, 0, 90,
         35, 18, 34, 20, 48, 0,
         0, 0, 0, 2, 0, 0, 0, 3, 2, 96, 228, 44, 6, 240, 60, 204, 0, 101, 2, 98, 0, 91,
         35, 18, 34, 20, 48, 16], offset = 3\<rparr> =
   Inr (sampleLocation1,
     \<lparr>buffer = [0, 0, 2,
         0, 0, 0, 1, 0, 0, 0, 3, 2, 96, 227, 200, 6, 240, 60, 104, 0, 100, 2, 93, 0, 90,
         35, 18, 34, 20, 48, 0,
         0, 0, 0, 2, 0, 0, 0, 3, 2, 96, 228, 44, 6, 240, 60, 204, 0, 101, 2, 98, 0, 91,
         35, 18, 34, 20, 48, 16], offset = 31\<rparr>)"
  unfolding sampleLocation1_def
  by (simp add: deserializeLocation_def readUInt32BE_def buffer_readUInt32BE_def
      readUInt16BE_def buffer_readUInt16BE_def andThen_def readBCD_eq bcdDigits_def
      toString_def digitChar_def)

text \<open>
  Claim C1 does not hold of the code on the batch location report (\<open>0x0704\<close>). Its
  schema gives the array field no \<open>countField\<close>, so \<open>deserializeArray\<close> reads exactly
  one location record whatever \<open>itemCount\<close> says, while \<open>serializeArray\<close> writes every
  record. A map with \<open>itemCount = 2\<close> and two records serializes to 59 bytes and
  deserializes to a map with the first record only; a map with \<open>itemCount = 0\<close> and
  no record serializes to 3 bytes, on which deserialization fails.
\<close>

theorem batch_report_roundtrip_fails:
  "serialize 0x0704
     [''dataType'' \<mapsto> JNumber 0, ''itemCount'' \<mapsto> JNumber 2,
      ''locationItems'' \<mapsto> JArray [LocationItem sampleLocation1, LocationItem sampleLocation2]] =
     Inr [0, 0, 2,
         0, 0, 0, 1, 0, 0, 0, 3, 2, 96, 227, 200, 6, 240, 60, 104, 0, 100, 2, 93, 0, 90,
         35, 18, 34, 20, 48, 0,
         0, 0, 0, 2, 0, 0, 0, 3, 2, 96, 228, 44, 6, 240, 60, 204, 0, 101, 2, 98, 0, 91,
         35, 18, 34, 20, 48, 16] \<and>
   deserialize 0x0704
     [0, 0, 2,
      0, 0, 0, 1, 0, 0, 0, 3, 2, 96, 227, 200, 6, 240, 60, 104, 0, 100, 2, 93, 0, 90,
      35, 18, 34, 20, 48, 0,
      0, 0, 0, 2, 0, 0, 0, 3, 2, 96, 228, 44, 6, 240, 60, 204, 0, 101, 2, 98, 0, 91,
      35, 18, 34, 20, 48, 16] =
     Inr [''dataType'' \<mapsto> JNumber 0, ''itemCount'' \<mapsto> JNumber 2,
          ''locationItems'' \<mapsto> JArray [LocationItem sampleLocation1]] \<and>
   JArray [LocationItem sampleLocation1] \<noteq>
     JArray [LocationItem sampleLocation1, LocationItem sampleLocation2] \<and>
   serialize 0x0704
     [''dataType'' \<mapsto> JNumber 0, ''itemCount'' \<mapsto> JNumber 0, ''locationItems'' \<mapsto> JArray []] =
     Inr [0, 0, 0] \<and>
   deserialize 0x0704 [0, 0, 0] =
     Inl (Error ''Error deserializing field locationItems: Buffer overflow: trying to read at offset 3, buffer length 3'')"
proof (intro conjI)
  show "serialize 0x0704
     [''dataType'' \<mapsto> JNumber 0, ''itemCount'' \<mapsto> JNumber 2,
      ''locationItems'' \<mapsto> JArray [LocationItem sampleLocation1, LocationItem sampleLocation2]] =
     Inr [0, 0, 2,
         0, 0, 0, 1, 0, 0, 0, 3, 2, 96, 227, 200, 6, 240, 60, 104, 0, 100, 2, 93, 0, 90,
         35, 18, 34, 20, 48, 0,
         0, 0, 0, 2, 0, 0, 0, 3, 2, 96, 228, 44, 6, 240, 60, 204, 0, 101, 2, 98, 0, 91,
         35, 18, 34, 20, 48, 16]"
    by (simp add: serialize_def batch_structure field_def serializeField_def
        serializeArray_def serializeLocation_sample1 serializeLocation_sample2
        andThen_def writeUInt8_def writeUInt16BE_def)
next
  show "deserialize 0x0704
     [0, 0, 2,
      0, 0, 0, 1, 0, 0, 0, 3, 2, 96, 227, 200, 6, 240, 60, 104, 0, 100, 2, 93, 0, 90,
      35, 18, 34, 20, 48, 0,
      0, 0, 0, 2, 0, 0, 0, 3, 2, 96, 228, 44, 6, 240, 60, 204, 0, 101, 2, 98, 0, 91,
      35, 18, 34, 20, 48, 16] =
     Inr [''dataType'' \<mapsto> JNumber 0, ''itemCount'' \<mapsto> JNumber 2,
          ''locationItems'' \<mapsto> JArray [LocationItem sampleLocation1]]"
  proof -
    let ?b = "[0, 0, 2,
      0, 0, 0, 1, 0, 0, 0, 3, 2, 96, 227, 200, 6, 240, 60, 104, 0, 100, 2, 93, 0, 90,
      35, 18, 34, 20, 48, 0,
      0, 0, 0, 2, 0, 0, 0, 3, 2, 96, 228, 44, 6, 240, 60, 204, 0, 101, 2, 98, 0, 91,
      35, 18, 34, 20, 48, 16] :: buffer"
    have r1: "readUInt8 \<lparr>buffer = ?b, offset = 0\<rparr> = Inr (0, \<lparr>buffer = ?b, offset = Suc 0\<rparr>)"
      by (simp add: readUInt8_def buffer_readUInt8_def andThen_def)
    have r2: "readUInt16BE \<lparr>buffer = ?b, offset = Suc 0\<rparr> = Inr (2, \<lparr>buffer = ?b, offset = 3\<rparr>)"
      by (simp add: readUInt16BE_def buffer_readUInt16BE_def andThen_def)
    show ?thesis
      by (simp add: deserialize_def batch_structure field_def deserializeField_def
          deserializeArray_def newBufferParser_def r1 r2 andThen_def
          deserializeLocation_sample1)
  qed
next
  show "JArray [LocationItem sampleLocation1] \<noteq>
     JArray [LocationItem sampleLocation1, LocationItem sampleLocation2]"
    by simp
next
  show "serialize 0x0704
     [''dataType'' \<mapsto> JNumber 0, ''itemCount'' \<mapsto> JNumber 0, ''locationItems'' \<mapsto> JArray []] =
     Inr [0, 0, 0]"
    by (simp add: serialize_def batch_structure field_def serializeField_def
        serializeArray_def andThen_def writeUInt8_def writeUInt16BE_def)
next
  show "deserialize 0x0704 [0, 0, 0] =
     Inl (Error ''Error deserializing field locationItems: Buffer overflow: trying to read at offset 3, buffer length 3'')"
    by (simp add: deserialize_def batch_structure field_def deserializeField_def
        deserializeArray_def newBufferParser_def readUInt8_def buffer_readUInt8_def
        readUInt16BE_def buffer_readUInt16BE_def andThen_def deserializeLocation_def
        readUInt32BE_def overflowMessage_def toString_def digitChar_def)
qed

end
